theory Spec2Isabelle
  imports Complex_Main
begin

section \<open>Conventions of the embedding\<close>

text \<open>
  The repository is a Python program. Its numbers are Python floats (prices, volumes,
  percentages, clock readings in seconds) and Python ints (scores, counters). Floats are
  modelled as \<^typ>\<open>real\<close>: a literal such as \<^verbatim>\<open>0.1\<close> stands for the decimal it
  writes, and rounding, infinities and NaN are outside the model. Every concrete input
  used below is a small integer or a short decimal on which the float computation of the
  source gives the same comparison results. Python ints are \<^typ>\<open>int\<close> or \<^typ>\<open>nat\<close>.

  A Python exception that leaves the modelled function is a value of \<open>py_error\<close> on the
  left of a sum. Float (and int) true division by zero raises \<^verbatim>\<open>ZeroDivisionError\<close> in
  Python, whereas \<open>x / 0 = 0\<close> in HOL, so every division of the source is guarded.
\<close>

datatype py_error = ZeroDivisionError | KeyError | ValueError | DatabaseError

section \<open>mood\_config.py: the mood classifier\<close>

datatype Mood = BULLISH | BEARISH | NEUTRAL | VOLATILE | RECOVERING

text \<open>The value of each member of the enum, the string stored as a sentiment.\<close>

fun mood_value :: "Mood \<Rightarrow> string" where
  "mood_value BULLISH = ''bullish''"
| "mood_value BEARISH = ''bearish''"
| "mood_value NEUTRAL = ''neutral''"
| "mood_value VOLATILE = ''volatile''"
| "mood_value RECOVERING = ''recovering''"

record MoodIndicators =
  price_change :: real
  trading_volume :: real
  volatility :: real
  social_sentiment :: "real option"
  funding_rates :: "real option"
  liquidation_volume :: "real option"

text \<open>
  \<^verbatim>\<open>mood_scores\<close> is a dict literal; a Python dict iterates in insertion order and
  \<^verbatim>\<open>d[k] += n\<close> on a present key keeps the key's position. It is modelled as an
  association list in that order.
\<close>

type_synonym mood_scores = "(Mood \<times> int) list"

definition initial_mood_scores :: mood_scores where
  "initial_mood_scores =
     [(BULLISH, 0), (BEARISH, 0), (NEUTRAL, 0), (VOLATILE, 0), (RECOVERING, 0)]"

fun add_score :: "Mood \<Rightarrow> int \<Rightarrow> mood_scores \<Rightarrow> mood_scores" where
  "add_score m n [] = []"
| "add_score m n ((k, v) # rest) =
     (if k = m then (k, v + n) # rest else (k, v) # add_score m n rest)"

definition price_change_scoring :: "MoodIndicators \<Rightarrow> mood_scores \<Rightarrow> mood_scores" where
  "price_change_scoring ind s =
     (if price_change ind > 5 then add_score BULLISH 3 s
      else if price_change ind < - 5 then add_score BEARISH 3 s
      else if - 2 \<le> price_change ind \<and> price_change ind \<le> 2 then add_score NEUTRAL 2 s
      else if - 5 \<le> price_change ind \<and> price_change ind < - 2 then add_score RECOVERING 2 s
      else s)"

definition volatility_scoring :: "MoodIndicators \<Rightarrow> mood_scores \<Rightarrow> mood_scores" where
  "volatility_scoring ind s =
     (if volatility ind > 0.1 then add_score VOLATILE 3 s
      else if 0.05 < volatility ind \<and> volatility ind \<le> 0.1 then add_score VOLATILE 1 s
      else s)"

definition volume_impact :: "MoodIndicators \<Rightarrow> mood_scores \<Rightarrow> mood_scores" where
  "volume_impact ind s =
     (if trading_volume ind > 1500000000
      then (let s1 = add_score VOLATILE 1 s
            in if price_change ind > 0 then add_score BULLISH 1 s1
               else add_score BEARISH 1 s1)
      else s)"

definition recovery_patterns :: "MoodIndicators \<Rightarrow> mood_scores \<Rightarrow> mood_scores" where
  "recovery_patterns ind s =
     (if - 8 \<le> price_change ind \<and> price_change ind < - 2 \<and> volatility ind < 0.08
      then add_score RECOVERING 2 s else s)"

definition social_sentiment_scoring :: "MoodIndicators \<Rightarrow> mood_scores \<Rightarrow> mood_scores" where
  "social_sentiment_scoring ind s =
     (case social_sentiment ind of
        None \<Rightarrow> s
      | Some x \<Rightarrow>
          if x > 0.7 then add_score BULLISH 1 s
          else if x < 0.3 then add_score BEARISH 1 s
          else s)"

definition funding_rates_scoring :: "MoodIndicators \<Rightarrow> mood_scores \<Rightarrow> mood_scores" where
  "funding_rates_scoring ind s =
     (case funding_rates ind of
        None \<Rightarrow> s
      | Some x \<Rightarrow> if \<bar>x\<bar> > 0.01 then add_score VOLATILE 1 s else s)"

definition liquidation_scoring :: "MoodIndicators \<Rightarrow> mood_scores \<Rightarrow> mood_scores" where
  "liquidation_scoring ind s =
     (case liquidation_volume ind of
        None \<Rightarrow> s
      | Some x \<Rightarrow>
          if x > 100000000 then add_score BEARISH 1 (add_score VOLATILE 2 s) else s)"

text \<open>The accumulators as they stand just before the final \<^verbatim>\<open>max\<close>.\<close>

definition accumulate_scores :: "MoodIndicators \<Rightarrow> mood_scores" where
  "accumulate_scores ind =
     liquidation_scoring ind
       (funding_rates_scoring ind
         (social_sentiment_scoring ind
           (recovery_patterns ind
             (volume_impact ind
               (volatility_scoring ind
                 (price_change_scoring ind initial_mood_scores))))))"

text \<open>
  Python's \<^verbatim>\<open>max(items, key=lambda x: x[1])\<close> walks the items in order and replaces
  the running maximum only when an item's key is strictly greater, so the first of
  several maximal items is returned; on an empty sequence it raises \<^verbatim>\<open>ValueError\<close>.
\<close>

fun max_from :: "('a \<times> int) \<Rightarrow> ('a \<times> int) list \<Rightarrow> ('a \<times> int)" where
  "max_from best [] = best"
| "max_from best (x # xs) = max_from (if snd x > snd best then x else best) xs"

fun py_max_by_value :: "('a \<times> int) list \<Rightarrow> py_error + ('a \<times> int)" where
  "py_max_by_value [] = Inl ValueError"
| "py_max_by_value (x # xs) = Inr (max_from x xs)"

definition determine_advanced_mood :: "MoodIndicators \<Rightarrow> py_error + Mood" where
  "determine_advanced_mood ind =
     (case py_max_by_value (accumulate_scores ind) of
        Inl e \<Rightarrow> Inl e
      | Inr item \<Rightarrow> Inr (fst item))"

text \<open>The score a mood has in a score table (a dict lookup on a present key).\<close>

definition score_of :: "mood_scores \<Rightarrow> Mood \<Rightarrow> int" where
  "score_of s m = (case map_of s m of Some v \<Rightarrow> v | None \<Rightarrow> 0)"

text \<open>
  The priority order of the specification, \<open>bullish > bearish > neutral > volatile >
  recovering\<close>, as a rank: a smaller rank is earlier in the order.
\<close>

fun mood_rank :: "Mood \<Rightarrow> nat" where
  "mood_rank BULLISH = 0"
| "mood_rank BEARISH = 1"
| "mood_rank NEUTRAL = 2"
| "mood_rank VOLATILE = 3"
| "mood_rank RECOVERING = 4"

section \<open>bot.py: configuration and market data\<close>

text \<open>
  \<^verbatim>\<open>bot.py\<close> reads its thresholds from a configuration object whose module is not
  among the sources. The four constants the modelled functions read are the fields of a
  record that every function takes as a parameter.
\<close>

record config =
  VOLUME_TREND_THRESHOLD :: real
  PRICE_CHANGE_THRESHOLD :: real
  VOLUME_CHANGE_THRESHOLD :: real
  BASE_INTERVAL :: real

text \<open>
  One chain's entry of the formatted market data, with the keys the modelled functions
  read. The market data itself is a dict from chain symbol to entry, modelled as an
  association list (the empty list is the empty, falsy dict).
\<close>

record chain_data =
  current_price :: real
  volume :: real
  price_change_percentage_24h :: real
  market_cap :: real

type_synonym market_data = "(string \<times> chain_data) list"

section \<open>bot.py: volume trend\<close>

text \<open>
  \<^verbatim>\<open>statistics.mean\<close> on a non-empty list of floats. An entry of the historical data
  is a dict with the keys \<^verbatim>\<open>timestamp\<close> and \<^verbatim>\<open>volume\<close>, modelled as a pair in that
  order.
\<close>

definition statistics_mean :: "real list \<Rightarrow> real" where
  "statistics_mean xs = sum_list xs / real (length xs)"

type_synonym volume_entry = "real \<times> real"

text \<open>
  \<^verbatim>\<open>_analyze_volume_trend\<close>. The division by the average raises
  \<^verbatim>\<open>ZeroDivisionError\<close> when the average is 0; the \<^verbatim>\<open>except\<close> clause of the
  function turns it into the result \<^verbatim>\<open>(0.0, "error")\<close>.
\<close>

definition analyze_volume_trend ::
  "config \<Rightarrow> real \<Rightarrow> volume_entry list \<Rightarrow> real \<times> string" where
  "analyze_volume_trend cfg current_volume historical_data =
     (if historical_data = [] then (0, ''insufficient_data'')
      else
        let historical_volumes = map snd historical_data;
            avg_volume = (if historical_volumes \<noteq> [] then statistics_mean historical_volumes
                          else current_volume)
        in if avg_volume = 0 then (0, ''error'')
           else
             let volume_change = ((current_volume - avg_volume) / avg_volume) * 100;
                 trend =
                   (if volume_change \<ge> VOLUME_TREND_THRESHOLD cfg then ''significant_increase''
                    else if volume_change \<le> - VOLUME_TREND_THRESHOLD cfg
                      then ''significant_decrease''
                    else if volume_change \<ge> 5 then ''moderate_increase''
                    else if volume_change \<le> - 5 then ''moderate_decrease''
                    else ''stable'')
             in (volume_change, trend))"

text \<open>
  The classification as the specification words it: an ordered list of rules, the first
  rule whose condition holds gives the label, and \<open>stable\<close> is the label when none holds.
\<close>

definition spec_trend_rules :: "real \<Rightarrow> ((real \<Rightarrow> bool) \<times> string) list" where
  "spec_trend_rules threshold =
     [(\<lambda>pct. pct \<ge> threshold, ''significant_increase''),
      (\<lambda>pct. pct \<le> - threshold, ''significant_decrease''),
      (\<lambda>pct. pct \<ge> 5, ''moderate_increase''),
      (\<lambda>pct. pct \<le> - 5, ''moderate_decrease'')]"

fun first_match :: "((real \<Rightarrow> bool) \<times> string) list \<Rightarrow> real \<Rightarrow> string" where
  "first_match [] pct = ''stable''"
| "first_match ((cond, label) # rules) pct =
     (if cond pct then label else first_match rules pct)"

definition spec_pct_change :: "real \<Rightarrow> volume_entry list \<Rightarrow> real" where
  "spec_pct_change current_volume history =
     (current_volume - statistics_mean (map snd history))
       / statistics_mean (map snd history) * 100"

section \<open>bot.py: correlations\<close>

record correlations =
  price_correlation :: real
  volume_correlation :: real
  market_cap_ratio :: real

text \<open>The dict returned by the \<^verbatim>\<open>except\<close> clause of \<^verbatim>\<open>_calculate_correlations\<close>.\<close>

definition fallback_correlations :: correlations where
  "fallback_correlations =
     \<lparr>price_correlation = 0, volume_correlation = 0, market_cap_ratio = 1\<rparr>"

text \<open>
  \<^verbatim>\<open>_calculate_correlations\<close>. Every exception inside the \<^verbatim>\<open>try\<close> block is caught
  and gives the fallback: a missing chain, a division by zero, and an exception that
  leaves the write of the result to the database. That write,
  \<^verbatim>\<open>store_correlation_analysis\<close>, is the last statement of the block that can raise; it
  opens the connection before its own \<^verbatim>\<open>try\<close> and rolls back inside its own handler,
  so an exception of the database can leave it. It is the parameter \<open>db_store\<close>: \<open>Inr ()\<close>
  when the call returns, \<open>Inl\<close> when an exception leaves it. In the source the local
  \<^verbatim>\<open>price_correlation\<close> first holds the relative difference and the returned entry is
  one minus it; the locals below are named \<open>price_delta\<close> and \<open>volume_delta\<close>.
\<close>

definition calculate_correlations ::
  "(correlations \<Rightarrow> py_error + unit) \<Rightarrow> market_data \<Rightarrow> correlations" where
  "calculate_correlations db_store md =
     (case map_of md ''SOL'' of
        None \<Rightarrow> fallback_correlations
      | Some sol_data \<Rightarrow>
         (case map_of md ''DOT'' of
            None \<Rightarrow> fallback_correlations
          | Some dot_data \<Rightarrow>
              if max \<bar>price_change_percentage_24h sol_data\<bar>
                     \<bar>price_change_percentage_24h dot_data\<bar> = 0
              then fallback_correlations
              else if max (volume sol_data) (volume dot_data) = 0 then fallback_correlations
              else if market_cap dot_data = 0 then fallback_correlations
              else
                let price_delta =
                      \<bar>price_change_percentage_24h sol_data
                         - price_change_percentage_24h dot_data\<bar>
                      / max \<bar>price_change_percentage_24h sol_data\<bar>
                            \<bar>price_change_percentage_24h dot_data\<bar>;
                    volume_delta =
                      \<bar>(volume sol_data - volume dot_data)
                         / max (volume sol_data) (volume dot_data)\<bar>;
                    result =
                      \<lparr>price_correlation = 1 - price_delta,
                       volume_correlation = 1 - volume_delta,
                       market_cap_ratio = market_cap sol_data / market_cap dot_data\<rparr>
                in (case db_store result of
                      Inl e \<Rightarrow> fallback_correlations
                    | Inr stored \<Rightarrow> result)))"

section \<open>Python strings and dicts\<close>

text \<open>
  \<^verbatim>\<open>str.lower\<close> and \<^verbatim>\<open>str.upper\<close> on the ASCII letters; every other character is
  left as it is (the chain symbols of the program are ASCII).
\<close>

definition ascii_uppercase :: string where
  "ascii_uppercase = ''ABCDEFGHIJKLMNOPQRSTUVWXYZ''"

definition ascii_lowercase :: string where
  "ascii_lowercase = ''abcdefghijklmnopqrstuvwxyz''"

definition lower_char :: "char \<Rightarrow> char" where
  "lower_char c =
     (case map_of (zip ascii_uppercase ascii_lowercase) c of Some l \<Rightarrow> l | None \<Rightarrow> c)"

definition upper_char :: "char \<Rightarrow> char" where
  "upper_char c =
     (case map_of (zip ascii_lowercase ascii_uppercase) c of Some u \<Rightarrow> u | None \<Rightarrow> c)"

definition py_lower :: "string \<Rightarrow> string" where
  "py_lower s = map lower_char s"

definition py_upper :: "string \<Rightarrow> string" where
  "py_upper s = map upper_char s"

text \<open>
  \<^verbatim>\<open>d[k] = v\<close> on a dict in insertion order: a present key keeps its place and gets
  the new value, a new key goes to the end.
\<close>

fun dict_set :: "'k \<Rightarrow> 'v \<Rightarrow> ('k \<times> 'v) list \<Rightarrow> ('k \<times> 'v) list" where
  "dict_set k v [] = [(k, v)]"
| "dict_set k v ((k', v') # rest) =
     (if k' = k then (k, v) # rest else (k', v') # dict_set k v rest)"

section \<open>bot.py: the state of the bot\<close>

text \<open>
  An entry of \<^verbatim>\<open>past_predictions\<close>: the dict built by \<^verbatim>\<open>_track_prediction\<close>. A
  \<^verbatim>\<open>datetime\<close> is a number of seconds; the outcome is \<^verbatim>\<open>None\<close> while pending.
\<close>

record tracked_prediction =
  timestamp :: real
  prediction :: string
  prices :: "(string \<times> real) list"
  sentiment :: "(string \<times> string) list"
  outcome :: "string option"

text \<open>The attributes of \<^verbatim>\<open>Layer1AnalysisBot\<close> that the modelled methods read or write.\<close>

record bot_state =
  past_predictions :: "tracked_prediction list"
  last_check_time :: real
  last_market_data :: market_data

definition target_chains :: "(string \<times> string) list" where
  "target_chains = [(''SOL'', ''solana''), (''DOT'', ''polkadot'')]"

section \<open>bot.py: the trigger decision\<close>

text \<open>
  The body of the loop of \<^verbatim>\<open>_should_post_update\<close> for one chain. \<open>Inr (Some reason)\<close>
  is a \<^verbatim>\<open>break\<close> with the trigger reason set, \<open>Inr None\<close> is the end of the iteration
  with no trigger, \<open>Inl\<close> is an exception, which nothing in the function catches. Both
  relative changes are computed before either is compared, so a zero price or a zero
  volume in the baseline raises whatever the other change is. The historical volume
  data come from the database and the clock; they are the parameter \<open>history\<close>.
\<close>

definition check_chain ::
  "config \<Rightarrow> (string \<Rightarrow> volume_entry list) \<Rightarrow> market_data \<Rightarrow> market_data \<Rightarrow> string
   \<Rightarrow> py_error + string option" where
  "check_chain cfg history new_data last_data chain =
     (case map_of new_data chain of
        None \<Rightarrow> Inr None
      | Some new_entry \<Rightarrow>
         (case map_of last_data chain of
            None \<Rightarrow> Inr None
          | Some last_entry \<Rightarrow>
              if current_price last_entry = 0 then Inl ZeroDivisionError
              else if volume last_entry = 0 then Inl ZeroDivisionError
              else
                let price_change_pct =
                      \<bar>(current_price new_entry - current_price last_entry)
                         / current_price last_entry * 100\<bar>;
                    immediate_volume_change =
                      \<bar>(volume new_entry - volume last_entry) / volume last_entry * 100\<bar>
                in if price_change_pct \<ge> PRICE_CHANGE_THRESHOLD cfg
                     then Inr (Some (''price_change_'' @ py_lower chain))
                   else if immediate_volume_change \<ge> VOLUME_CHANGE_THRESHOLD cfg
                     then Inr (Some (''volume_change_'' @ py_lower chain))
                   else
                     let historical_volume = history chain
                     in if historical_volume \<noteq> [] then
                          (case analyze_volume_trend cfg (volume new_entry) historical_volume of
                             (volume_change_pct, trend) \<Rightarrow>
                               if trend \<in> set [''significant_increase'', ''significant_decrease'']
                               then Inr (Some (''volume_trend_'' @ py_lower chain @ ''_'' @ trend))
                               else Inr None)
                        else Inr None))"

fun check_chains ::
  "config \<Rightarrow> (string \<Rightarrow> volume_entry list) \<Rightarrow> market_data \<Rightarrow> market_data \<Rightarrow> string list
   \<Rightarrow> py_error + string option" where
  "check_chains cfg history new_data last_data [] = Inr None"
| "check_chains cfg history new_data last_data (chain # rest) =
     (case check_chain cfg history new_data last_data chain of
        Inl e \<Rightarrow> Inl e
      | Inr (Some reason) \<Rightarrow> Inr (Some reason)
      | Inr None \<Rightarrow> check_chains cfg history new_data last_data rest)"

text \<open>
  Python's \<^verbatim>\<open>trigger_reason or "regular_interval"\<close>: \<^verbatim>\<open>None\<close> and the empty string
  are falsy.
\<close>

definition or_regular_interval :: "string option \<Rightarrow> string option" where
  "or_regular_interval trigger_reason =
     (case trigger_reason of
        None \<Rightarrow> Some ''regular_interval''
      | Some r \<Rightarrow> if r = [] then Some ''regular_interval'' else Some r)"

text \<open>
  \<^verbatim>\<open>_should_post_update\<close>, with the reading \<open>now\<close> of the clock as a parameter. The
  result is the returned pair and the state after the call; an exception leaves the
  state as it was.
\<close>

definition should_post_update ::
  "config \<Rightarrow> (string \<Rightarrow> volume_entry list) \<Rightarrow> real \<Rightarrow> bot_state \<Rightarrow> market_data
   \<Rightarrow> py_error + ((bool \<times> string option) \<times> bot_state)" where
  "should_post_update cfg history now st new_data =
     (if last_market_data st = []
      then Inr ((True, Some ''initial_post''), st\<lparr>last_market_data := new_data\<rparr>)
      else
        (case check_chains cfg history new_data (last_market_data st) (map fst target_chains) of
           Inl e \<Rightarrow> Inl e
         | Inr checked \<Rightarrow>
             let time_since_last = now - last_check_time st;
                 trigger_reason =
                   (if time_since_last \<ge> BASE_INTERVAL cfg then or_regular_interval checked
                    else checked);
                 should_post = (trigger_reason \<noteq> None)
             in if should_post
                then Inr ((should_post, trigger_reason), st\<lparr>last_market_data := new_data\<rparr>)
                else Inr ((should_post, trigger_reason), st)))"

section \<open>bot.py: tracking and validating predictions\<close>

text \<open>
  The argument of \<^verbatim>\<open>_track_prediction\<close> is a dict with the keys \<^verbatim>\<open>analysis\<close> and
  \<^verbatim>\<open>sentiment\<close> and one key \<^verbatim>\<open><CHAIN>_price\<close> per chain. The record keeps the two
  fixed keys as fields (\<open>sentiment_by_chain\<close> is the value of the key \<^verbatim>\<open>sentiment\<close>)
  and the remaining keys as an association list.
\<close>

record prediction_data =
  analysis :: string
  sentiment_by_chain :: "(string \<times> string) list"
  price_keys :: "(string \<times> real) list"

text \<open>
  The dict comprehension that collects the recorded prices; a chain without its price
  key raises \<^verbatim>\<open>KeyError\<close>.
\<close>

fun collect_prices ::
  "(string \<times> real) list \<Rightarrow> string list \<Rightarrow> (string \<times> real) list
   \<Rightarrow> py_error + (string \<times> real) list" where
  "collect_prices keys [] acc = Inr acc"
| "collect_prices keys (chain # rest) acc =
     (case map_of keys (py_upper chain @ ''_price'') of
        None \<Rightarrow> Inl KeyError
      | Some p \<Rightarrow> collect_prices keys rest (dict_set chain p acc))"

text \<open>
  \<^verbatim>\<open>_track_prediction\<close>. The source reads the clock once for the new entry and once
  per entry in the pruning comprehension; the model reads it once per call, as \<open>now\<close>.
\<close>

definition track_prediction ::
  "real \<Rightarrow> bot_state \<Rightarrow> prediction_data \<Rightarrow> string list \<Rightarrow> py_error + bot_state" where
  "track_prediction now st pd relevant_chains =
     (case collect_prices (price_keys pd) relevant_chains [] of
        Inl e \<Rightarrow> Inl e
      | Inr current_prices \<Rightarrow>
          let appended = past_predictions st @
                [\<lparr>timestamp = now, prediction = analysis pd, prices = current_prices,
                  sentiment = sentiment_by_chain pd, outcome = None\<rparr>]
          in Inr (st\<lparr>past_predictions := filter (\<lambda>p. now - timestamp p < 86400) appended\<rparr>))"

definition sentiment_map :: "(string \<times> int) list" where
  "sentiment_map = [(''bullish'', 1), (''bearish'', - 1), (''neutral'', 0)]"

text \<open>A sentiment that is a key of \<^verbatim>\<open>sentiment_map\<close>: bullish, bearish or neutral.\<close>

definition sentiment_listed :: "string \<Rightarrow> bool" where
  "sentiment_listed s = (s \<in> set (map fst sentiment_map))"

text \<open>\<^verbatim>\<open>sentiment_map.get(s, 0)\<close>.\<close>

definition sentiment_map_get :: "string \<Rightarrow> int" where
  "sentiment_map_get s = (case map_of sentiment_map s of Some v \<Rightarrow> v | None \<Rightarrow> 0)"

text \<open>
  The loop of \<^verbatim>\<open>_validate_past_prediction\<close> over the items of the recorded prices,
  with the list \<^verbatim>\<open>wrong_chains\<close> as accumulator. The division raises
  \<^verbatim>\<open>ZeroDivisionError\<close> on a recorded price 0 and the sentiment lookup raises
  \<^verbatim>\<open>KeyError\<close> on a chain without a recorded sentiment; the function catches neither.
\<close>

fun validate_chains ::
  "(string \<times> string) list \<Rightarrow> (string \<times> real) list \<Rightarrow> (string \<times> real) list \<Rightarrow> string list
   \<Rightarrow> py_error + string list" where
  "validate_chains sent current_prices [] wrong_chains = Inr wrong_chains"
| "validate_chains sent current_prices ((chain, old_price) # items) wrong_chains =
     (case map_of current_prices chain of
        None \<Rightarrow> validate_chains sent current_prices items wrong_chains
      | Some current \<Rightarrow>
          if old_price = 0 then Inl ZeroDivisionError
          else
            (case map_of sent (py_upper chain) of
               None \<Rightarrow> Inl KeyError
             | Some s \<Rightarrow>
                 if real_of_int (sentiment_map_get s) * (((current - old_price) / old_price) * 100)
                      < - 2
                 then validate_chains sent current_prices items (wrong_chains @ [chain])
                 else validate_chains sent current_prices items wrong_chains))"

definition validate_past_prediction ::
  "tracked_prediction \<Rightarrow> (string \<times> real) list \<Rightarrow> py_error + string" where
  "validate_past_prediction p current_prices =
     (case validate_chains (sentiment p) current_prices (prices p) [] of
        Inl e \<Rightarrow> Inl e
      | Inr wrong_chains \<Rightarrow> Inr (if wrong_chains \<noteq> [] then ''wrong'' else ''right''))"

text \<open>
  The quantities of the specification: the percentage change of a chain's price and the
  sign of a sentiment, \<open>+1\<close> for bullish, \<open>-1\<close> for bearish and 0 for neutral (and for
  every other sentiment).
\<close>

definition spec_price_change_pct :: "real \<Rightarrow> real \<Rightarrow> real" where
  "spec_price_change_pct current old = (current - old) / old * 100"

definition spec_sentiment_sign :: "string \<Rightarrow> real" where
  "spec_sentiment_sign s =
     (if s = ''bullish'' then 1 else if s = ''bearish'' then - 1 else 0)"

section \<open>config.py: the rate-limited fetcher\<close>

text \<open>
  \<^verbatim>\<open>CoinGeckoHandler\<close>. Wall-clock time is the field \<open>clock\<close> of the handler, in seconds
  since the epoch: \<^verbatim>\<open>time.time()\<close> and \<^verbatim>\<open>datetime.now()\<close> read it, \<^verbatim>\<open>time.sleep\<close>
  advances it, and nothing else takes time. A \<^verbatim>\<open>datetime\<close> is its number of seconds
  since the epoch, so \<^verbatim>\<open>datetime.fromtimestamp\<close> is the identity (timestamps that
  the platform cannot convert are outside the model). The payload of a response is a
  string; a cache entry is the pair of the data and its timestamp.
\<close>

record handler =
  clock :: real
  last_request_time :: real
  min_request_interval :: real
  cache_duration :: real
  cache :: "(string \<times> (string \<times> real)) list"
  rate_limit_remaining :: "int option"
  rate_limit_reset_at :: "real option"
  daily_requests :: int
  daily_reset_time :: real
  failed_requests :: int

text \<open>The handler as \<^verbatim>\<open>__init__\<close> leaves it when the clock reads \<open>t\<close>.\<close>

definition new_handler :: "real \<Rightarrow> real \<Rightarrow> handler" where
  "new_handler t duration =
     \<lparr>clock = t, last_request_time = 0, min_request_interval = 6, cache_duration = duration,
      cache = [], rate_limit_remaining = None, rate_limit_reset_at = None,
      daily_requests = 0, daily_reset_time = t, failed_requests = 0\<rparr>"

text \<open>
  One of the two rate-limit headers of a response: not sent, sent with a value that
  \<^verbatim>\<open>int\<close> rejects, or sent with an integer.
\<close>

datatype header = HeaderAbsent | HeaderMalformed | HeaderInt int

text \<open>
  What one call of \<^verbatim>\<open>session.get\<close> does: it returns a response (status code, the
  headers \<^verbatim>\<open>X-RateLimit-Remaining\<close> and \<^verbatim>\<open>X-RateLimit-Reset\<close>, and the body parsed
  by \<^verbatim>\<open>response.json()\<close>, \<open>None\<close> when parsing raises), or it raises a timeout, or
  it raises another exception.
\<close>

datatype attempt =
    Response int header header "string option"
  | TimeoutRaised
  | OtherRaised

definition sleep :: "real \<Rightarrow> handler \<Rightarrow> handler" where
  "sleep seconds h = h\<lparr>clock := clock h + seconds\<rparr>"

text \<open>\<^verbatim>\<open>int(response.headers.get(name, 0))\<close>: an absent header reads as 0.\<close>

fun header_int :: "header \<Rightarrow> py_error + int" where
  "header_int HeaderAbsent = Inr 0"
| "header_int HeaderMalformed = Inl ValueError"
| "header_int (HeaderInt n) = Inr n"

text \<open>
  \<^verbatim>\<open>_update_rate_limits\<close>: the two assignments are in one \<^verbatim>\<open>try\<close> block, so an
  exception at the first header leaves both attributes as they were and an exception at
  the second leaves the reset time as it was.
\<close>

definition update_rate_limits :: "handler \<Rightarrow> header \<Rightarrow> header \<Rightarrow> handler" where
  "update_rate_limits h remaining_header reset_header =
     (case header_int remaining_header of
        Inl e \<Rightarrow> h
      | Inr remaining \<Rightarrow>
         (case header_int reset_header of
            Inl e \<Rightarrow> h\<lparr>rate_limit_remaining := Some remaining\<rparr>
          | Inr reset_time \<Rightarrow>
              h\<lparr>rate_limit_remaining := Some remaining,
                rate_limit_reset_at := Some (real_of_int reset_time)\<rparr>))"

definition should_use_cache :: "handler \<Rightarrow> string \<Rightarrow> bool" where
  "should_use_cache h cache_key =
     (case map_of (cache h) cache_key of
        None \<Rightarrow> False
      | Some (data, stamp) \<Rightarrow> clock h - stamp < cache_duration h)"

definition cache_response :: "handler \<Rightarrow> string \<Rightarrow> string \<Rightarrow> handler" where
  "cache_response h cache_key data =
     h\<lparr>cache := dict_set cache_key (data, clock h) (cache h)\<rparr>"

text \<open>
  \<^verbatim>\<open>_wait_for_rate_limit\<close>. \<^verbatim>\<open>timedelta.days\<close> is the number of whole days, rounded
  down.
\<close>

definition wait_for_rate_limit :: "handler \<Rightarrow> handler" where
  "wait_for_rate_limit h =
     (let time_since_last_request = clock h - last_request_time h;
          h1 = (if time_since_last_request < min_request_interval h
                then sleep (min_request_interval h - time_since_last_request) h
                else h)
      in if \<lfloor>(clock h1 - daily_reset_time h1) / 86400\<rfloor> > 0
         then h1\<lparr>daily_requests := 0, failed_requests := 0, daily_reset_time := clock h1\<rparr>
         else h1)"

text \<open>
  \<^verbatim>\<open>_handle_rate_limit_response\<close>: the time it waits, and the wait itself. A
  \<^verbatim>\<open>datetime\<close> is always truthy, so the test \<^verbatim>\<open>if self.rate_limit_reset_at\<close> is
  the test that the attribute is not \<^verbatim>\<open>None\<close>.
\<close>

definition rate_limit_wait_time :: "handler \<Rightarrow> real" where
  "rate_limit_wait_time h =
     (case rate_limit_reset_at h of
        None \<Rightarrow> 60
      | Some reset_at \<Rightarrow> max 1 ((reset_at - clock h) + 1))"

definition handle_rate_limit_response :: "handler \<Rightarrow> handler" where
  "handle_rate_limit_response h = sleep (rate_limit_wait_time h) h"

definition count_failure :: "handler \<Rightarrow> handler" where
  "count_failure h = h\<lparr>failed_requests := failed_requests h + 1\<rparr>"

text \<open>
  The \<^verbatim>\<open>while\<close> loop of \<^verbatim>\<open>get_market_data\<close>. \<open>network n\<close> is what \<^verbatim>\<open>session.get\<close>
  does in the iteration that starts with \<^verbatim>\<open>retry_count = n\<close> (every iteration that
  does not return adds one to the counter). The result is the value returned, \<open>None\<close>
  for \<^verbatim>\<open>None\<close>, and the handler afterwards. \<^verbatim>\<open>base_wait\<close> is 5.
\<close>

function retry_loop ::
  "(nat \<Rightarrow> attempt) \<Rightarrow> string \<Rightarrow> int \<Rightarrow> nat \<Rightarrow> handler \<Rightarrow> string option \<times> handler" where
  "retry_loop network cache_key max_retries retry_count h =
     (if int retry_count < max_retries then
        let h1 = wait_for_rate_limit h;
            h2 = h1\<lparr>last_request_time := clock h1, daily_requests := daily_requests h1 + 1\<rparr>
        in (case network retry_count of
              TimeoutRaised \<Rightarrow>
                retry_loop network cache_key max_retries (retry_count + 1)
                  (sleep (5 * 2 ^ retry_count) (count_failure h2))
            | OtherRaised \<Rightarrow> (None, count_failure h2)
            | Response status_code remaining_header reset_header body \<Rightarrow>
                let h3 = update_rate_limits h2 remaining_header reset_header
                in if status_code = 200 then
                     (case body of
                        None \<Rightarrow> (None, count_failure h3)
                      | Some data \<Rightarrow> (Some data, cache_response h3 cache_key data))
                   else if status_code = 429 then
                     retry_loop network cache_key max_retries (retry_count + 1)
                       (handle_rate_limit_response (count_failure h3))
                   else
                     retry_loop network cache_key max_retries (retry_count + 1)
                       (sleep (5 * 2 ^ retry_count) (count_failure h3)))
      else (None, h))"
  by pat_completeness auto
termination
  by (relation "measure (\<lambda>(network, cache_key, max_retries, retry_count, h).
        nat (max_retries - int retry_count))") auto

declare retry_loop.simps [simp del]

text \<open>
  \<^verbatim>\<open>get_market_data\<close>; \<open>cache_key\<close> stands for the key the source builds from the
  request parameters.
\<close>

definition get_market_data ::
  "(nat \<Rightarrow> attempt) \<Rightarrow> string \<Rightarrow> int \<Rightarrow> handler \<Rightarrow> string option \<times> handler" where
  "get_market_data network cache_key max_retries h =
     (if should_use_cache h cache_key
      then (case map_of (cache h) cache_key of
              None \<Rightarrow> (None, h)
            | Some (data, stamp) \<Rightarrow> (Some data, h))
      else retry_loop network cache_key max_retries 0 h)"

section \<open>Predicates and concrete inputs used in the statements\<close>

text \<open>
  A baseline in which some entry has price 0 or volume 0: the only baselines on which
  the trigger decision can raise.
\<close>

definition zero_baseline :: "market_data \<Rightarrow> bool" where
  "zero_baseline last_data =
     (\<exists>(chain, entry) \<in> set last_data. current_price entry = 0 \<or> volume entry = 0)"

text \<open>
  The recorded prices of a prediction can be validated against the current prices without
  an exception: every chain that is also in the current prices has a recorded price
  other than 0 and a recorded sentiment.
\<close>

definition validation_defined ::
  "tracked_prediction \<Rightarrow> (string \<times> real) list \<Rightarrow> bool" where
  "validation_defined p current_prices =
     (\<forall>(chain, old_price) \<in> set (prices p).
        map_of current_prices chain \<noteq> None \<longrightarrow>
          old_price \<noteq> 0 \<and> map_of (sentiment p) (py_upper chain) \<noteq> None)"

text \<open>
  A chain of the prediction counts as wrong, in the words of the specification: it is in
  the current prices and \<open>sentimentSign * priceChangePct < -2\<close>.
\<close>

definition spec_chain_wrong ::
  "tracked_prediction \<Rightarrow> (string \<times> real) list \<Rightarrow> string \<times> real \<Rightarrow> bool" where
  "spec_chain_wrong p current_prices item =
     (case map_of current_prices (fst item) of
        None \<Rightarrow> False
      | Some current \<Rightarrow>
         (case map_of (sentiment p) (py_upper (fst item)) of
            None \<Rightarrow> False
          | Some s \<Rightarrow>
              spec_sentiment_sign s * spec_price_change_pct current (snd item) < - 2))"

definition example_config :: config where
  "example_config =
     \<lparr>VOLUME_TREND_THRESHOLD = 10, PRICE_CHANGE_THRESHOLD = 2,
      VOLUME_CHANGE_THRESHOLD = 5, BASE_INTERVAL = 60\<rparr>"

definition example_data :: "real \<Rightarrow> market_data" where
  "example_data dot_price =
     [(''SOL'', \<lparr>current_price = 100, volume = 10, price_change_percentage_24h = 5,
                market_cap = 50\<rparr>),
      (''DOT'', \<lparr>current_price = dot_price, volume = 10, price_change_percentage_24h = - 5,
                market_cap = 25\<rparr>)]"

definition example_state :: "market_data \<Rightarrow> bot_state" where
  "example_state baseline =
     \<lparr>past_predictions = [], last_check_time = 0, last_market_data = baseline\<rparr>"

definition example_entry :: "real \<Rightarrow> tracked_prediction" where
  "example_entry t =
     \<lparr>timestamp = t, prediction = ''SOL to the moon'', prices = [(''SOL'', 100)],
      sentiment = [(''SOL'', ''bullish'')], outcome = None\<rparr>"

definition example_prediction_data :: prediction_data where
  "example_prediction_data =
     \<lparr>analysis = ''DOT wakes up'', sentiment_by_chain = [(''DOT'', ''neutral'')],
      price_keys = [(''DOT_price'', 5)]\<rparr>"

definition example_prediction ::
  "(string \<times> real) list \<Rightarrow> (string \<times> string) list \<Rightarrow> tracked_prediction" where
  "example_prediction recorded_prices recorded_sentiment =
     \<lparr>timestamp = 0, prediction = ''a take'', prices = recorded_prices,
      sentiment = recorded_sentiment, outcome = None\<rparr>"

section \<open>Properties of the mood classifier\<close>

lemma add_score_keys: "map fst (add_score m n s) = map fst s"
  by (induction s) auto

lemma price_change_scoring_keys: "map fst (price_change_scoring ind s) = map fst s"
  by (simp add: price_change_scoring_def add_score_keys)

lemma volatility_scoring_keys: "map fst (volatility_scoring ind s) = map fst s"
  by (simp add: volatility_scoring_def add_score_keys)

lemma volume_impact_keys: "map fst (volume_impact ind s) = map fst s"
  by (simp add: volume_impact_def add_score_keys Let_def)

lemma recovery_patterns_keys: "map fst (recovery_patterns ind s) = map fst s"
  by (simp add: recovery_patterns_def add_score_keys)

lemma social_sentiment_scoring_keys: "map fst (social_sentiment_scoring ind s) = map fst s"
  by (simp add: social_sentiment_scoring_def add_score_keys split: option.split)

lemma funding_rates_scoring_keys: "map fst (funding_rates_scoring ind s) = map fst s"
  by (simp add: funding_rates_scoring_def add_score_keys split: option.split)

lemma liquidation_scoring_keys: "map fst (liquidation_scoring ind s) = map fst s"
  by (simp add: liquidation_scoring_def add_score_keys split: option.split)

lemma accumulate_scores_keys:
  "map fst (accumulate_scores ind) = [BULLISH, BEARISH, NEUTRAL, VOLATILE, RECOVERING]"
  by (simp add: accumulate_scores_def liquidation_scoring_keys funding_rates_scoring_keys
      social_sentiment_scoring_keys recovery_patterns_keys volume_impact_keys
      volatility_scoring_keys price_change_scoring_keys initial_mood_scores_def)

lemma accumulate_scores_shape:
  "\<exists>b be n v r. accumulate_scores ind =
     [(BULLISH, b), (BEARISH, be), (NEUTRAL, n), (VOLATILE, v), (RECOVERING, r)]"
proof -
  obtain s where s: "s = accumulate_scores ind" by simp
  have "map fst s = [BULLISH, BEARISH, NEUTRAL, VOLATILE, RECOVERING]"
    using accumulate_scores_keys s by simp
  then show ?thesis unfolding s[symmetric]
    by (auto simp: map_eq_Cons_conv)
qed

lemma all_moods:
  "(\<forall>m. P m) = (P BULLISH \<and> P BEARISH \<and> P NEUTRAL \<and> P VOLATILE \<and> P RECOVERING)"
  by (metis Mood.exhaust)

lemmas scoring_defs =
  accumulate_scores_def liquidation_scoring_def funding_rates_scoring_def
  social_sentiment_scoring_def recovery_patterns_def volume_impact_def
  volatility_scoring_def price_change_scoring_def initial_mood_scores_def

text \<open>
  Claim C3, as amended. On the indicators \<open>price_change = 0\<close>, \<open>volatility = 0\<close>, a
  trading volume not above the high-volume threshold \<open>1.5e9\<close> and no optional indicator,
  the price-change step adds 2 to the neutral accumulator (0 lies in \<open>-2..2\<close>) and the other
  four accumulators stay 0; the classifier returns without error the single mood NEUTRAL.
\<close>

theorem zero_indicators_neutral:
  "tv \<le> 1500000000 \<Longrightarrow>
   accumulate_scores
     \<lparr>price_change = 0, trading_volume = tv, volatility = 0,
      social_sentiment = None, funding_rates = None, liquidation_volume = None\<rparr>
     = [(BULLISH, 0), (BEARISH, 0), (NEUTRAL, 2), (VOLATILE, 0), (RECOVERING, 0)]
   \<and> determine_advanced_mood
     \<lparr>price_change = 0, trading_volume = tv, volatility = 0,
      social_sentiment = None, funding_rates = None, liquidation_volume = None\<rparr>
     = Inr NEUTRAL"
  by (simp add: determine_advanced_mood_def scoring_defs)

text \<open>The amended claim C3 at the trading volume 1000.\<close>

theorem zero_indicators_neutral_witness:
  "(1000::real) \<le> 1500000000 \<and>
   accumulate_scores
     \<lparr>price_change = 0, trading_volume = 1000, volatility = 0,
      social_sentiment = None, funding_rates = None, liquidation_volume = None\<rparr>
     = [(BULLISH, 0), (BEARISH, 0), (NEUTRAL, 2), (VOLATILE, 0), (RECOVERING, 0)]
   \<and> determine_advanced_mood
     \<lparr>price_change = 0, trading_volume = 1000, volatility = 0,
      social_sentiment = None, funding_rates = None, liquidation_volume = None\<rparr>
     = Inr NEUTRAL"
  using zero_indicators_neutral [of 1000] by simp

text \<open>
  Claim C3 as stated says that all five accumulators remain zero on this input. With
  trading volume 0 the neutral accumulator is 2, so the table differs from the initial one.
\<close>

theorem zero_indicators_all_zero_counterexample:
  "score_of (accumulate_scores
     \<lparr>price_change = 0, trading_volume = 0, volatility = 0,
      social_sentiment = None, funding_rates = None, liquidation_volume = None\<rparr>) NEUTRAL = 2
   \<and> accumulate_scores
     \<lparr>price_change = 0, trading_volume = 0, volatility = 0,
      social_sentiment = None, funding_rates = None, liquidation_volume = None\<rparr>
     \<noteq> initial_mood_scores"
  by (simp add: scoring_defs score_of_def)

text \<open>
  Claim C4. For every input the classifier returns a mood (no error); no mood has a
  higher accumulated score than the returned one; and every mood whose score equals the
  returned mood's score is at the same place or later in the priority order
  bullish, bearish, neutral, volatile, recovering.
\<close>

theorem determine_advanced_mood_highest_first:
  "\<exists>m. determine_advanced_mood ind = Inr m \<and>
       (\<forall>m'. score_of (accumulate_scores ind) m' \<le> score_of (accumulate_scores ind) m) \<and>
       (\<forall>m'. score_of (accumulate_scores ind) m' = score_of (accumulate_scores ind) m
              \<longrightarrow> mood_rank m \<le> mood_rank m')"
proof -
  obtain b be n v r where s: "accumulate_scores ind =
     [(BULLISH, b), (BEARISH, be), (NEUTRAL, n), (VOLATILE, v), (RECOVERING, r)]"
    using accumulate_scores_shape by blast
  show ?thesis
    unfolding determine_advanced_mood_def s all_moods
    by (simp add: score_of_def)
qed

text \<open>
  Claim C4 on a tie: a 24h change of \<open>-6\<close> with volatility \<open>0.2\<close> scores bearish 3 and
  volatile 3; the classifier returns BEARISH, the earlier of the two.
\<close>

theorem determine_advanced_mood_highest_first_witness:
  "determine_advanced_mood
     \<lparr>price_change = - 6, trading_volume = 0, volatility = 0.2,
      social_sentiment = None, funding_rates = None, liquidation_volume = None\<rparr> = Inr BEARISH
   \<and> score_of (accumulate_scores
     \<lparr>price_change = - 6, trading_volume = 0, volatility = 0.2,
      social_sentiment = None, funding_rates = None, liquidation_volume = None\<rparr>) VOLATILE
     = score_of (accumulate_scores
     \<lparr>price_change = - 6, trading_volume = 0, volatility = 0.2,
      social_sentiment = None, funding_rates = None, liquidation_volume = None\<rparr>) BEARISH
   \<and> mood_rank BEARISH \<le> mood_rank VOLATILE"
  using determine_advanced_mood_highest_first [of
     "\<lparr>price_change = - 6, trading_volume = 0, volatility = 0.2,
      social_sentiment = None, funding_rates = None, liquidation_volume = None\<rparr>"]
  by (simp add: determine_advanced_mood_def scoring_defs score_of_def)

section \<open>Properties of the trend analysis\<close>

text \<open>
  Claim C5, as amended. On an empty history the volume-trend analysis returns
  \<open>(0, insufficient_data)\<close>. On a non-empty history whose mean volume is not zero it
  returns \<open>pct_change = (current - mean) / mean * 100\<close> together with the label of the
  first rule that matches, in the order: \<open>pct_change >= threshold\<close> significant increase,
  \<open>pct_change <= -threshold\<close> significant decrease, \<open>pct_change >= 5\<close> moderate increase,
  \<open>pct_change <= -5\<close> moderate decrease, else stable. On a non-empty history whose mean
  volume is zero it returns \<open>(0, error)\<close>.
\<close>

theorem analyze_volume_trend_first_match:
  "analyze_volume_trend cfg current_volume [] = (0, ''insufficient_data'') \<and>
   (history \<noteq> [] \<longrightarrow> statistics_mean (map snd history) \<noteq> 0 \<longrightarrow>
      analyze_volume_trend cfg current_volume history =
        (spec_pct_change current_volume history,
         first_match (spec_trend_rules (VOLUME_TREND_THRESHOLD cfg))
           (spec_pct_change current_volume history))) \<and>
   (history \<noteq> [] \<longrightarrow> statistics_mean (map snd history) = 0 \<longrightarrow>
      analyze_volume_trend cfg current_volume history = (0, ''error''))"
  by (simp add: analyze_volume_trend_def spec_pct_change_def spec_trend_rules_def Let_def)

text \<open>
  The amended claim C5 at threshold 10 and the one-entry history of volume 100: the
  current volumes 110, 109.99 and 104.9 give the percentage changes 10, 9.99 and 4.9 and
  the labels significant increase, moderate increase and stable; a history of mean 0
  gives \<open>error\<close>.
\<close>

theorem analyze_volume_trend_first_match_witness:
  "analyze_volume_trend
     \<lparr>VOLUME_TREND_THRESHOLD = 10, PRICE_CHANGE_THRESHOLD = 1,
      VOLUME_CHANGE_THRESHOLD = 1, BASE_INTERVAL = 60\<rparr> 110 [(0, 100)]
     = (10, ''significant_increase'') \<and>
   analyze_volume_trend
     \<lparr>VOLUME_TREND_THRESHOLD = 10, PRICE_CHANGE_THRESHOLD = 1,
      VOLUME_CHANGE_THRESHOLD = 1, BASE_INTERVAL = 60\<rparr> 109.99 [(0, 100)]
     = (9.99, ''moderate_increase'') \<and>
   analyze_volume_trend
     \<lparr>VOLUME_TREND_THRESHOLD = 10, PRICE_CHANGE_THRESHOLD = 1,
      VOLUME_CHANGE_THRESHOLD = 1, BASE_INTERVAL = 60\<rparr> 104.9 [(0, 100)]
     = (4.9, ''stable'') \<and>
   analyze_volume_trend
     \<lparr>VOLUME_TREND_THRESHOLD = 10, PRICE_CHANGE_THRESHOLD = 1,
      VOLUME_CHANGE_THRESHOLD = 1, BASE_INTERVAL = 60\<rparr> 104.9 [(0, 0)]
     = (0, ''error'')"
  using
    analyze_volume_trend_first_match [of
      "\<lparr>VOLUME_TREND_THRESHOLD = 10, PRICE_CHANGE_THRESHOLD = 1,
        VOLUME_CHANGE_THRESHOLD = 1, BASE_INTERVAL = 60\<rparr>" 110 "[(0, 100)]"]
    analyze_volume_trend_first_match [of
      "\<lparr>VOLUME_TREND_THRESHOLD = 10, PRICE_CHANGE_THRESHOLD = 1,
        VOLUME_CHANGE_THRESHOLD = 1, BASE_INTERVAL = 60\<rparr>" "109.99" "[(0, 100)]"]
    analyze_volume_trend_first_match [of
      "\<lparr>VOLUME_TREND_THRESHOLD = 10, PRICE_CHANGE_THRESHOLD = 1,
        VOLUME_CHANGE_THRESHOLD = 1, BASE_INTERVAL = 60\<rparr>" "104.9" "[(0, 100)]"]
    analyze_volume_trend_first_match [of
      "\<lparr>VOLUME_TREND_THRESHOLD = 10, PRICE_CHANGE_THRESHOLD = 1,
        VOLUME_CHANGE_THRESHOLD = 1, BASE_INTERVAL = 60\<rparr>" "104.9" "[(0, 0)]"]
  by (simp add: statistics_mean_def spec_pct_change_def spec_trend_rules_def)

text \<open>
  Claim C5 as stated gives every non-empty history one of the five trend labels. The
  one-entry history of volume 0 is not empty, and the analysis returns the sixth label
  \<open>error\<close> with percentage change 0.
\<close>

theorem zero_mean_volume_trend_counterexample:
  "[(0, 0) :: volume_entry] \<noteq> [] \<and>
   analyze_volume_trend
     \<lparr>VOLUME_TREND_THRESHOLD = 10, PRICE_CHANGE_THRESHOLD = 1,
      VOLUME_CHANGE_THRESHOLD = 1, BASE_INTERVAL = 60\<rparr> 50 [(0, 0)] = (0, ''error'') \<and>
   ''error'' \<notin> set [''significant_increase'', ''significant_decrease'',
                      ''moderate_increase'', ''moderate_decrease'', ''stable'']"
  by (simp add: analyze_volume_trend_def statistics_mean_def)

lemma relative_difference_equal_magnitude:
  fixes a b :: real
  assumes "\<bar>a\<bar> = \<bar>b\<bar>" and "\<not> (a = 0 \<and> b = 0)"
  shows "1 - \<bar>a - b\<bar> / max \<bar>a\<bar> \<bar>b\<bar> = (if a = b then 1 else - 1)"
proof (cases "a = b")
  case True
  then show ?thesis by simp
next
  case False
  with assms have b: "b = - a" and a: "a \<noteq> 0" by (auto simp: abs_if split: if_splits)
  have "\<bar>a - b\<bar> = 2 * \<bar>a\<bar>" using b by (simp add: abs_if)
  moreover have "max \<bar>a\<bar> \<bar>b\<bar> = \<bar>a\<bar>" using b by simp
  ultimately have "\<bar>a - b\<bar> / max \<bar>a\<bar> \<bar>b\<bar> = 2" using a by simp
  with False show ?thesis by simp
qed

text \<open>
  Claim C1, as amended. When the correlation computation does not fall back (both chains
  present, the two 24h changes not both zero, the larger volume not zero, the market cap
  of DOT not zero, and no exception leaves the write of the result to the database) and
  the two changes have equal magnitude, the price correlation is exactly 1 if the changes
  are equal and exactly \<open>-1\<close> if they have opposite signs. When an exception leaves the
  write, the result is the fallback, with price correlation 0.
\<close>

theorem calculate_correlations_equal_changes:
  assumes "map_of md ''SOL'' = Some sol_data" and "map_of md ''DOT'' = Some dot_data"
    and "\<bar>price_change_percentage_24h sol_data\<bar> = \<bar>price_change_percentage_24h dot_data\<bar>"
    and "\<not> (price_change_percentage_24h sol_data = 0 \<and> price_change_percentage_24h dot_data = 0)"
    and "max (volume sol_data) (volume dot_data) \<noteq> 0" and "market_cap dot_data \<noteq> 0"
  shows "((\<forall>r. db_store r = Inr ()) \<longrightarrow>
       price_correlation (calculate_correlations db_store md) =
         (if price_change_percentage_24h sol_data = price_change_percentage_24h dot_data
          then 1 else - 1)) \<and>
     ((\<forall>r. \<exists>e. db_store r = Inl e) \<longrightarrow>
       calculate_correlations db_store md = fallback_correlations)"
proof (intro conjI impI)
  have nz: "max \<bar>price_change_percentage_24h sol_data\<bar> \<bar>price_change_percentage_24h dot_data\<bar> \<noteq> 0"
    using assms(3,4) by auto
  {
    assume ok: "\<forall>r. db_store r = Inr ()"
    have "price_correlation (calculate_correlations db_store md) =
       1 - \<bar>price_change_percentage_24h sol_data - price_change_percentage_24h dot_data\<bar>
            / max \<bar>price_change_percentage_24h sol_data\<bar> \<bar>price_change_percentage_24h dot_data\<bar>"
      using assms(1,2,5,6) nz ok by (simp add: calculate_correlations_def Let_def)
    then show "price_correlation (calculate_correlations db_store md) =
         (if price_change_percentage_24h sol_data = price_change_percentage_24h dot_data
          then 1 else - 1)"
      using relative_difference_equal_magnitude [OF assms(3,4)] by simp
  }
  {
    assume raised: "\<forall>r. \<exists>e. db_store r = Inl e"
    show "calculate_correlations db_store md = fallback_correlations"
    proof -
      have "\<And>r. (case db_store r of Inl e \<Rightarrow> fallback_correlations | Inr stored \<Rightarrow> r)
          = fallback_correlations"
        using raised by (metis sum.simps(5))
      then show ?thesis
        using assms(1,2) by (simp add: calculate_correlations_def Let_def)
    qed
  }
qed

text \<open>
  The amended claim C1 on two snapshots that both changed by 5 percent, once with a
  database write that returns and once with one that raises.
\<close>

theorem calculate_correlations_equal_changes_witness:
  "price_correlation (calculate_correlations (\<lambda>r. Inr ())
     [(''SOL'', \<lparr>current_price = 100, volume = 10, price_change_percentage_24h = 5, market_cap = 50\<rparr>),
      (''DOT'', \<lparr>current_price = 5, volume = 20, price_change_percentage_24h = 5, market_cap = 25\<rparr>)]) = 1 \<and>
   calculate_correlations (\<lambda>r. Inl DatabaseError)
     [(''SOL'', \<lparr>current_price = 100, volume = 10, price_change_percentage_24h = 5, market_cap = 50\<rparr>),
      (''DOT'', \<lparr>current_price = 5, volume = 20, price_change_percentage_24h = 5, market_cap = 25\<rparr>)]
     = fallback_correlations"
  using
    calculate_correlations_equal_changes [of
     "[(''SOL'', \<lparr>current_price = 100, volume = 10, price_change_percentage_24h = 5, market_cap = 50\<rparr>),
      (''DOT'', \<lparr>current_price = 5, volume = 20, price_change_percentage_24h = 5, market_cap = 25\<rparr>)]"
     "\<lparr>current_price = 100, volume = 10, price_change_percentage_24h = 5, market_cap = 50\<rparr>"
     "\<lparr>current_price = 5, volume = 20, price_change_percentage_24h = 5, market_cap = 25\<rparr>"
     "\<lambda>r. Inr ()"]
    calculate_correlations_equal_changes [of
     "[(''SOL'', \<lparr>current_price = 100, volume = 10, price_change_percentage_24h = 5, market_cap = 50\<rparr>),
      (''DOT'', \<lparr>current_price = 5, volume = 20, price_change_percentage_24h = 5, market_cap = 25\<rparr>)]"
     "\<lparr>current_price = 100, volume = 10, price_change_percentage_24h = 5, market_cap = 50\<rparr>"
     "\<lparr>current_price = 5, volume = 20, price_change_percentage_24h = 5, market_cap = 25\<rparr>"
     "\<lambda>r. Inl DatabaseError"]
  by simp

text \<open>
  Claim C1 as stated gives price correlation 1 whenever the magnitudes are equal. The
  changes 5 and \<open>-5\<close> have equal magnitude and, with a database write that returns, the
  computed price correlation is \<open>-1\<close>.
\<close>

theorem equal_magnitude_price_correlation_counterexample:
  "\<bar>5 :: real\<bar> = \<bar>- 5\<bar> \<and>
   price_correlation (calculate_correlations (\<lambda>r. Inr ())
     [(''SOL'', \<lparr>current_price = 100, volume = 10, price_change_percentage_24h = 5, market_cap = 50\<rparr>),
      (''DOT'', \<lparr>current_price = 5, volume = 10, price_change_percentage_24h = - 5, market_cap = 25\<rparr>)])
     = - 1"
  by (simp add: calculate_correlations_def)

section \<open>Properties of the rate-limited fetcher\<close>

text \<open>
  An iteration that receives status 429 counts one failed request, waits for
  \<open>rate_limit_wait_time\<close> and goes on with the retry counter increased by one, the
  counter that every other failure increases. The wait is 60 seconds only while no reset
  time has ever been stored; a response without the reset header stores the reset time 0,
  the epoch, and the wait is then the floor of one second.
\<close>

lemmas fetcher_defs = get_market_data_def should_use_cache_def wait_for_rate_limit_def
  update_rate_limits_def handle_rate_limit_response_def rate_limit_wait_time_def
  count_failure_def sleep_def cache_response_def new_handler_def

lemma retry_loop_exhausted:
  "\<not> int retry_count < max_retries \<Longrightarrow>
   retry_loop network cache_key max_retries retry_count h = (None, h)"
  by (subst retry_loop.simps) simp

lemma retry_loop_rate_limited:
  assumes "int retry_count < max_retries"
    and "network retry_count = Response 429 remaining_header reset_header body"
  shows "retry_loop network cache_key max_retries retry_count h =
     retry_loop network cache_key max_retries (retry_count + 1)
       (handle_rate_limit_response (count_failure
          (update_rate_limits
             ((wait_for_rate_limit h)\<lparr>last_request_time := clock (wait_for_rate_limit h),
                daily_requests := daily_requests (wait_for_rate_limit h) + 1\<rparr>)
             remaining_header reset_header)))"
  using assms by (subst retry_loop.simps) (simp add: Let_def)

lemma absent_reset_header_wait_time:
  assumes "header_int remaining_header = Inr remaining" and "0 \<le> clock h"
  shows "rate_limit_wait_time (count_failure (update_rate_limits h remaining_header HeaderAbsent)) = 1"
  using assms by (simp add: update_rate_limits_def rate_limit_wait_time_def count_failure_def)

lemma no_reset_time_wait_time:
  "rate_limit_reset_at h = None \<Longrightarrow> rate_limit_wait_time h = 60"
  by (simp add: rate_limit_wait_time_def)

text \<open>
  Claim C2 at a response with status 429 and no rate-limit headers, received by a new
  handler when the clock reads 1700000000. The claim asks for a wait of 60 seconds when
  the headers are absent. The handler stores the reset time 0 and waits 1 second; three
  such responses use up the three retries, count three failed requests and end 13 seconds
  after the start (three waits of 1 second and two waits of 5 seconds for the minimum
  request interval), with no data returned.
\<close>

theorem rate_limited_without_headers:
  "rate_limit_wait_time
     (count_failure (update_rate_limits (new_handler 1700000000 60) HeaderAbsent HeaderAbsent))
     = 1 \<and>
   get_market_data (\<lambda>n. Response 429 HeaderAbsent HeaderAbsent None) ''markets'' 3
     (new_handler 1700000000 60)
     = (None,
        \<lparr>clock = 1700000013, last_request_time = 1700000012, min_request_interval = 6,
         cache_duration = 60, cache = [], rate_limit_remaining = Some 0,
         rate_limit_reset_at = Some 0, daily_requests = 3,
         daily_reset_time = 1700000000, failed_requests = 3\<rparr>)"
  by (simp add: fetcher_defs retry_loop_rate_limited retry_loop_exhausted)

section \<open>Properties of the trigger decision\<close>

lemmas str_defs = py_lower_def py_upper_def lower_char_def upper_char_def
  ascii_uppercase_def ascii_lowercase_def

lemma check_chain_reason:
  "check_chain cfg history new_data last_data chain = Inr (Some r) \<Longrightarrow> r \<noteq> []"
  by (auto simp: check_chain_def Let_def split: option.splits if_splits prod.splits)

lemma check_chain_error:
  "check_chain cfg history new_data last_data chain = Inl e \<Longrightarrow>
     e = ZeroDivisionError \<and> zero_baseline last_data"
  by (auto simp: check_chain_def zero_baseline_def Let_def
      split: option.splits if_splits prod.splits dest: map_of_SomeD)

lemma check_chains_reason:
  "check_chains cfg history new_data last_data cs = Inr (Some r) \<Longrightarrow> r \<noteq> []"
proof (induction cs)
  case Nil
  then show ?case by simp
next
  case (Cons c cs)
  then show ?case
    by (auto split: sum.splits option.splits dest: check_chain_reason)
qed

lemma check_chains_error:
  "check_chains cfg history new_data last_data cs = Inl e \<Longrightarrow>
     e = ZeroDivisionError \<and> zero_baseline last_data"
proof (induction cs)
  case Nil
  then show ?case by simp
next
  case (Cons c cs)
  then show ?case
    by (auto split: sum.splits option.splits dest: check_chain_error)
qed

lemma or_regular_interval_reason:
  "or_regular_interval x \<noteq> None \<and> or_regular_interval x \<noteq> Some []"
  by (simp add: or_regular_interval_def split: option.split)

text \<open>
  Claim C6, as amended. The trigger decision returns a pair on every input whose stored
  baseline holds no entry with price 0 or volume 0; on the other inputs it either returns
  a pair or raises \<open>ZeroDivisionError\<close>. Whenever it returns a pair, the boolean
  component equals
  (the reason is not null), and the reason is never the empty string; so a positive
  decision always comes with a non-empty reason.
\<close>

theorem should_post_update_reason:
  "(\<forall>should_post trigger_reason st'.
      should_post_update cfg history now st new_data
        = Inr ((should_post, trigger_reason), st') \<longrightarrow>
      should_post = (trigger_reason \<noteq> None) \<and> trigger_reason \<noteq> Some []) \<and>
   (\<forall>e. should_post_update cfg history now st new_data = Inl e \<longrightarrow>
      e = ZeroDivisionError \<and> zero_baseline (last_market_data st)) \<and>
   (\<not> zero_baseline (last_market_data st) \<longrightarrow>
      (\<exists>should_post trigger_reason st'.
         should_post_update cfg history now st new_data
           = Inr ((should_post, trigger_reason), st')))"
proof (intro conjI allI impI)
  fix should_post trigger_reason st'
  assume r: "should_post_update cfg history now st new_data
        = Inr ((should_post, trigger_reason), st')"
  show "should_post = (trigger_reason \<noteq> None)"
    using r by (auto simp: should_post_update_def Let_def split: if_splits sum.splits)
  show "trigger_reason \<noteq> Some []"
    using r or_regular_interval_reason
    by (auto simp: should_post_update_def Let_def split: if_splits sum.splits
        dest: check_chains_reason)
next
  fix e
  assume "should_post_update cfg history now st new_data = Inl e"
  then have "check_chains cfg history new_data (last_market_data st) (map fst target_chains) = Inl e"
    by (auto simp: should_post_update_def Let_def split: if_splits sum.splits)
  then show "e = ZeroDivisionError" and "zero_baseline (last_market_data st)"
    using check_chains_error by blast+
next
  assume nz: "\<not> zero_baseline (last_market_data st)"
  show "\<exists>should_post trigger_reason st'.
         should_post_update cfg history now st new_data
           = Inr ((should_post, trigger_reason), st')"
  proof (cases "should_post_update cfg history now st new_data")
    case (Inl e)
    then have "check_chains cfg history new_data (last_market_data st) (map fst target_chains)
        = Inl e"
      by (auto simp: should_post_update_def Let_def split: if_splits sum.splits)
    with check_chains_error nz show ?thesis by blast
  next
    case (Inr result)
    then show ?thesis by (cases result) auto
  qed
qed

text \<open>
  Claim C7. With no prior baseline the decision is \<open>(true, initial_post)\<close> and the new
  snapshots become the baseline. Whenever the decision returns, the state afterwards is
  the state before with the baseline replaced by the new snapshots if the decision is
  positive, and exactly the state before if it is negative.
\<close>

theorem should_post_update_baseline:
  "(last_market_data st = [] \<longrightarrow>
      should_post_update cfg history now st new_data
        = Inr ((True, Some ''initial_post''), st\<lparr>last_market_data := new_data\<rparr>)) \<and>
   (\<forall>should_post trigger_reason st'.
      should_post_update cfg history now st new_data
        = Inr ((should_post, trigger_reason), st') \<longrightarrow>
      st' = (if should_post then st\<lparr>last_market_data := new_data\<rparr> else st))"
  by (auto simp: should_post_update_def Let_def split: if_splits sum.splits)

lemmas example_defs = example_config_def example_data_def example_state_def
  example_entry_def example_prediction_data_def example_prediction_def

lemmas trigger_defs = should_post_update_def check_chain_def target_chains_def
  or_regular_interval_def analyze_volume_trend_def statistics_mean_def

text \<open>
  Claim C6 on a baseline with DOT at 5 and a new snapshot with DOT at 6, a change of 20
  percent against a threshold of 2: the decision is positive and its reason is
  \<open>price_change_dot\<close>.
\<close>

theorem should_post_update_reason_witness:
  "should_post_update example_config (\<lambda>chain. []) 10
       (example_state (example_data 5)) (example_data 6)
     = Inr ((True, Some ''price_change_dot''), example_state (example_data 6))
   \<and> True = (Some ''price_change_dot'' \<noteq> None)
   \<and> Some ''price_change_dot'' \<noteq> Some []"
  using should_post_update_reason [of example_config "\<lambda>chain. []" 10
      "example_state (example_data 5)" "example_data 6"]
  by (simp add: trigger_defs example_defs str_defs)

text \<open>
  Claim C7 on three calls. With no baseline the decision is \<open>(true, initial_post)\<close> and
  the snapshot becomes the baseline. From that baseline a snapshot with DOT at 5.01 gives
  a negative decision and the same state, so the next snapshot, with DOT at 6, is compared
  with the original baseline and replaces it.
\<close>

theorem should_post_update_baseline_witness:
  "should_post_update example_config (\<lambda>chain. []) 10 (example_state []) (example_data 5)
     = Inr ((True, Some ''initial_post''), example_state (example_data 5))
   \<and> should_post_update example_config (\<lambda>chain. []) 10
        (example_state (example_data 5)) (example_data 5.01)
     = Inr ((False, None), example_state (example_data 5))
   \<and> should_post_update example_config (\<lambda>chain. []) 10
        (example_state (example_data 5)) (example_data 6)
     = Inr ((True, Some ''price_change_dot''), example_state (example_data 6))"
  using
    should_post_update_baseline [of "example_state []" example_config "\<lambda>chain. []" 10
      "example_data 5"]
    should_post_update_baseline [of "example_state (example_data 5)" example_config
      "\<lambda>chain. []" 10 "example_data 5.01"]
  by (simp add: trigger_defs example_defs str_defs)

text \<open>
  Claim C6 as stated has the decision return a pair on every input. On a baseline with
  DOT at price 0 the relative price change divides by 0 and the call raises
  \<open>ZeroDivisionError\<close>: no pair is returned.
\<close>

theorem zero_baseline_raises_counterexample:
  "should_post_update example_config (\<lambda>chain. []) 10
       (example_state (example_data 0)) (example_data 5)
     = Inl ZeroDivisionError"
  by (simp add: trigger_defs example_defs str_defs)

section \<open>Properties of the prediction tracker\<close>

lemma collect_prices_total:
  "\<forall>c \<in> set cs. map_of keys (py_upper c @ ''_price'') \<noteq> None \<Longrightarrow>
   \<exists>cp. collect_prices keys cs acc = Inr cp"
  by (induction cs arbitrary: acc) auto

text \<open>
  Claim C8, as amended. When every relevant chain has its price key, a call to record a
  prediction returns; the tracked list afterwards is the old list without exactly the
  entries whose age is at least 86400 seconds, followed by the new entry, whose outcome
  is pending. An entry recorded 86401 seconds ago is absent from it and an entry recorded
  86399 seconds ago remains.
\<close>

theorem track_prediction_prunes:
  assumes "\<forall>c \<in> set relevant_chains. map_of (price_keys pd) (py_upper c @ ''_price'') \<noteq> None"
  shows "\<exists>recorded st'.
     track_prediction now st pd relevant_chains = Inr st' \<and>
     past_predictions st' =
       filter (\<lambda>p. \<not> 86400 \<le> now - timestamp p) (past_predictions st) @
       [\<lparr>timestamp = now, prediction = analysis pd, prices = recorded,
         sentiment = sentiment_by_chain pd, outcome = None\<rparr>] \<and>
     (\<forall>p \<in> set (past_predictions st).
        (now - timestamp p = 86401 \<longrightarrow> p \<notin> set (past_predictions st')) \<and>
        (now - timestamp p = 86399 \<longrightarrow> p \<in> set (past_predictions st')))"
proof -
  obtain cp where cp: "collect_prices (price_keys pd) relevant_chains [] = Inr cp"
    using collect_prices_total [OF assms] by blast
  have eq: "(\<lambda>p. now - timestamp p < 86400) = (\<lambda>p. \<not> 86400 \<le> now - timestamp p)"
    by (auto simp: fun_eq_iff)
  show ?thesis
    apply (rule exI [of _ cp])
    apply (simp add: track_prediction_def cp Let_def eq)
    apply auto
    done
qed

lemma sentiment_map_get_sign: "real_of_int (sentiment_map_get s) = spec_sentiment_sign s"
  by (simp add: sentiment_map_get_def sentiment_map_def spec_sentiment_sign_def)

lemma sentiment_map_get_other:
  "s \<notin> {''bullish'', ''bearish'', ''neutral''} \<Longrightarrow> sentiment_map_get s = 0"
  by (simp add: sentiment_map_get_def sentiment_map_def)

lemma validate_chains_defined:
  assumes "\<forall>(chain, old_price) \<in> set items.
        map_of current_prices chain \<noteq> None \<longrightarrow>
          old_price \<noteq> 0 \<and> map_of (sentiment p) (py_upper chain) \<noteq> None"
  shows "validate_chains (sentiment p) current_prices items acc =
     Inr (acc @ map fst (filter (spec_chain_wrong p current_prices) items))"
  using assms
proof (induction items arbitrary: acc)
  case Nil
  then show ?case by simp
next
  case (Cons item items)
  obtain chain old_price where item: "item = (chain, old_price)" by (cases item)
  have rest: "\<And>acc'. validate_chains (sentiment p) current_prices items acc' =
     Inr (acc' @ map fst (filter (spec_chain_wrong p current_prices) items))"
    using Cons by simp
  show ?case
  proof (cases "map_of current_prices chain")
    case None
    then have "\<not> spec_chain_wrong p current_prices (chain, old_price)"
      by (simp add: spec_chain_wrong_def)
    with None show ?thesis by (simp add: item rest)
  next
    case (Some current)
    with Cons.prems item obtain s where
      nz: "old_price \<noteq> 0" and s: "map_of (sentiment p) (py_upper chain) = Some s"
      by auto
    have "spec_chain_wrong p current_prices (chain, old_price) =
        (real_of_int (sentiment_map_get s) * (((current - old_price) / old_price) * 100) < - 2)"
      by (simp add: spec_chain_wrong_def Some s sentiment_map_get_sign spec_price_change_pct_def)
    then show ?thesis by (simp add: item rest Some nz s)
  qed
qed

text \<open>
  Claim C9, as amended. When the validation raises no exception (every recorded chain that
  is in the current prices has a recorded price other than 0 and a recorded sentiment),
  it returns \<open>wrong\<close> if some chain present in both the recorded and the current prices
  has \<open>sentimentSign * priceChangePct < -2\<close>, and \<open>right\<close> otherwise.
\<close>

theorem validate_past_prediction_wrong_iff:
  assumes "validation_defined p current_prices"
  shows "validate_past_prediction p current_prices =
     Inr (if \<exists>item \<in> set (prices p). spec_chain_wrong p current_prices item
          then ''wrong'' else ''right'')"
proof -
  have "validate_chains (sentiment p) current_prices (prices p) [] =
     Inr ([] @ map fst (filter (spec_chain_wrong p current_prices) (prices p)))"
    using assms unfolding validation_defined_def by (rule validate_chains_defined)
  then show ?thesis
    by (auto simp: validate_past_prediction_def filter_empty_conv)
qed

lemma sentiment_map_get_unlisted:
  "\<not> sentiment_listed s \<Longrightarrow> sentiment_map_get s = 0"
  by (simp add: sentiment_listed_def sentiment_map_get_def sentiment_map_def)

lemma validate_chains_members:
  "validate_chains sent current_prices items acc = Inr wrong \<Longrightarrow> x \<in> set wrong \<Longrightarrow>
     x \<in> set acc \<or>
     (\<exists>old_price current s.
        (x, old_price) \<in> set items \<and> map_of current_prices x = Some current \<and>
        map_of sent (py_upper x) = Some s \<and>
        real_of_int (sentiment_map_get s) * (((current - old_price) / old_price) * 100) < - 2)"
proof (induction items arbitrary: acc)
  case Nil
  then show ?case by simp
next
  case (Cons item items)
  obtain chain old_price where item: "item = (chain, old_price)" by (cases item)
  show ?case
  proof (cases "map_of current_prices chain")
    case None
    with Cons.prems item
    have "validate_chains sent current_prices items acc = Inr wrong" by simp
    from Cons.IH [OF this Cons.prems(2)] show ?thesis by auto
  next
    case (Some current)
    with Cons.prems item obtain s where
      nz: "old_price \<noteq> 0" and s: "map_of sent (py_upper chain) = Some s"
      by (auto split: if_splits option.splits)
    show ?thesis
    proof (cases "real_of_int (sentiment_map_get s) * (((current - old_price) / old_price) * 100) < - 2")
      case True
      with Cons.prems item Some nz s
      have "validate_chains sent current_prices items (acc @ [chain]) = Inr wrong" by simp
      from Cons.IH [OF this Cons.prems(2)] True Some s item show ?thesis by auto
    next
      case False
      with Cons.prems item Some nz s
      have "validate_chains sent current_prices items acc = Inr wrong" by simp
      from Cons.IH [OF this Cons.prems(2)] show ?thesis by auto
    qed
  qed
qed

lemma classifier_volatile:
  "determine_advanced_mood
     \<lparr>price_change = 3, trading_volume = 0, volatility = 0.2,
      social_sentiment = None, funding_rates = None, liquidation_volume = None\<rparr>
   = Inr VOLATILE"
  by (simp add: determine_advanced_mood_def scoring_defs)

lemma classifier_recovering:
  "determine_advanced_mood
     \<lparr>price_change = - 3, trading_volume = 0, volatility = 0.03,
      social_sentiment = None, funding_rates = None, liquidation_volume = None\<rparr>
   = Inr RECOVERING"
  by (simp add: determine_advanced_mood_def scoring_defs)

text \<open>
  Claim C10, as amended. A sentiment outside bullish, bearish and neutral has sentiment
  sign 0; volatile and recovering are such sentiments, and the classifier can produce
  both moods. In the validation of any prediction, a chain whose recorded sentiment is
  outside the three is never put on the list of wrong chains, however far its price
  moved, and an outcome \<open>wrong\<close> always comes from a chain recorded as bullish or bearish
  that counts as wrong. Consequently a prediction in which every chain's sentiment is
  outside the three never validates as \<open>wrong\<close>, and it validates as \<open>right\<close> whenever
  the validation raises no exception.
\<close>

theorem unlisted_sentiment_never_wrong:
  "(\<forall>s. \<not> sentiment_listed s \<longrightarrow> sentiment_map_get s = 0) \<and>
   \<not> sentiment_listed (mood_value VOLATILE) \<and>
   \<not> sentiment_listed (mood_value RECOVERING) \<and>
   (\<exists>ind. determine_advanced_mood ind = Inr VOLATILE) \<and>
   (\<exists>ind. determine_advanced_mood ind = Inr RECOVERING) \<and>
   (\<forall>chain s wrong_chains.
      map_of (sentiment p) (py_upper chain) = Some s \<longrightarrow> \<not> sentiment_listed s \<longrightarrow>
      validate_chains (sentiment p) current_prices (prices p) [] = Inr wrong_chains \<longrightarrow>
      chain \<notin> set wrong_chains) \<and>
   (validate_past_prediction p current_prices = Inr ''wrong'' \<longrightarrow>
      (\<exists>(chain, old_price) \<in> set (prices p). \<exists>s.
         map_of (sentiment p) (py_upper chain) = Some s \<and> sentiment_listed s \<and>
         spec_chain_wrong p current_prices (chain, old_price))) \<and>
   ((\<forall>(chain, old_price) \<in> set (prices p). \<forall>s.
        map_of (sentiment p) (py_upper chain) = Some s \<longrightarrow> \<not> sentiment_listed s) \<longrightarrow>
      validate_past_prediction p current_prices \<noteq> Inr ''wrong'' \<and>
      (validation_defined p current_prices \<longrightarrow>
         validate_past_prediction p current_prices = Inr ''right''))"
proof -
  have sign: "\<forall>s. \<not> sentiment_listed s \<longrightarrow> sentiment_map_get s = 0"
    using sentiment_map_get_unlisted by blast
  have moods: "\<not> sentiment_listed (mood_value VOLATILE)"
    "\<not> sentiment_listed (mood_value RECOVERING)"
    by (simp_all add: sentiment_listed_def sentiment_map_def)
  have produced: "\<exists>ind. determine_advanced_mood ind = Inr VOLATILE"
    "\<exists>ind. determine_advanced_mood ind = Inr RECOVERING"
    using classifier_volatile classifier_recovering by blast+
  have per_chain: "chain \<notin> set wrong_chains"
    if s: "map_of (sentiment p) (py_upper chain) = Some s" and u: "\<not> sentiment_listed s"
      and v: "validate_chains (sentiment p) current_prices (prices p) [] = Inr wrong_chains"
    for chain s wrong_chains
  proof
    assume "chain \<in> set wrong_chains"
    from validate_chains_members [OF v this] s
    obtain old_price current where
      "real_of_int (sentiment_map_get s) * (((current - old_price) / old_price) * 100) < - 2"
      by auto
    with sentiment_map_get_unlisted [OF u] show False by simp
  qed
  have cause: "\<exists>(chain, old_price) \<in> set (prices p). \<exists>s.
         map_of (sentiment p) (py_upper chain) = Some s \<and> sentiment_listed s \<and>
         spec_chain_wrong p current_prices (chain, old_price)"
    if w: "validate_past_prediction p current_prices = Inr ''wrong''"
  proof -
    from w obtain wrong_chains where
      v: "validate_chains (sentiment p) current_prices (prices p) [] = Inr wrong_chains"
      and ne: "wrong_chains \<noteq> []"
      by (auto simp: validate_past_prediction_def split: sum.splits if_splits)
    from ne obtain x where x: "x \<in> set wrong_chains" by (cases wrong_chains) auto
    from validate_chains_members [OF v x]
    obtain old_price current s where
      m: "(x, old_price) \<in> set (prices p)" and c: "map_of current_prices x = Some current"
      and s: "map_of (sentiment p) (py_upper x) = Some s"
      and lt: "real_of_int (sentiment_map_get s) * (((current - old_price) / old_price) * 100) < - 2"
      by auto
    have "sentiment_listed s"
    proof (rule ccontr)
      assume "\<not> sentiment_listed s"
      with lt sentiment_map_get_unlisted show False by simp
    qed
    moreover have "spec_chain_wrong p current_prices (x, old_price)"
      using c s lt
      by (simp add: spec_chain_wrong_def sentiment_map_get_sign spec_price_change_pct_def)
    ultimately show ?thesis using m s by blast
  qed
  have all_unlisted: "validate_past_prediction p current_prices \<noteq> Inr ''wrong'' \<and>
      (validation_defined p current_prices \<longrightarrow>
         validate_past_prediction p current_prices = Inr ''right'')"
    if u: "\<forall>(chain, old_price) \<in> set (prices p). \<forall>s.
        map_of (sentiment p) (py_upper chain) = Some s \<longrightarrow> \<not> sentiment_listed s"
  proof -
    have never: "validate_past_prediction p current_prices \<noteq> Inr ''wrong''"
    proof
      assume "validate_past_prediction p current_prices = Inr ''wrong''"
      from cause [OF this] u show False by fastforce
    qed
    have "validate_past_prediction p current_prices = Inr ''right''"
      if d: "validation_defined p current_prices"
    proof -
      have "validate_chains (sentiment p) current_prices (prices p) [] =
         Inr ([] @ map fst (filter (spec_chain_wrong p current_prices) (prices p)))"
        using d unfolding validation_defined_def by (rule validate_chains_defined)
      then have "validate_past_prediction p current_prices = Inr ''wrong'' \<or>
         validate_past_prediction p current_prices = Inr ''right''"
        by (simp add: validate_past_prediction_def)
      with never show ?thesis by blast
    qed
    with never show ?thesis by blast
  qed
  from sign moods produced per_chain cause all_unlisted show ?thesis by blast
qed

text \<open>
  The amended claim C8 at clock reading 100000 on entries recorded at 13599, 13600 and
  13601, that is 86401, 86400 and 86399 seconds ago: only the last one remains, followed
  by the new pending entry.
\<close>

theorem track_prediction_prunes_witness:
  "track_prediction 100000
     ((example_state [])\<lparr>past_predictions :=
        [example_entry 13599, example_entry 13600, example_entry 13601]\<rparr>)
     example_prediction_data [''DOT'']
   = Inr ((example_state [])\<lparr>past_predictions :=
        [example_entry 13601,
         \<lparr>timestamp = 100000, prediction = ''DOT wakes up'', prices = [(''DOT'', 5)],
          sentiment = [(''DOT'', ''neutral'')], outcome = None\<rparr>]\<rparr>)"
  using track_prediction_prunes [of "[''DOT'']" example_prediction_data 100000
     "(example_state [])\<lparr>past_predictions :=
        [example_entry 13599, example_entry 13600, example_entry 13601]\<rparr>"]
  by (simp add: track_prediction_def example_defs str_defs)

text \<open>
  Claim C8 as stated prunes exactly the entries whose age exceeds 86400 seconds. An entry
  recorded exactly 86400 seconds ago has an age that does not exceed 86400 seconds, and
  it is pruned: the source keeps an entry only while its age is below 86400 seconds.
\<close>

theorem age_exactly_one_day_counterexample:
  "\<not> (100000 - timestamp (example_entry 13600) > 86400) \<and>
   track_prediction 100000
     ((example_state [])\<lparr>past_predictions := [example_entry 13600]\<rparr>)
     example_prediction_data [''DOT'']
   = Inr ((example_state [])\<lparr>past_predictions :=
        [\<lparr>timestamp = 100000, prediction = ''DOT wakes up'', prices = [(''DOT'', 5)],
          sentiment = [(''DOT'', ''neutral'')], outcome = None\<rparr>]\<rparr>)"
  by (simp add: track_prediction_def example_defs str_defs)

lemmas validate_defs = validate_past_prediction_def sentiment_map_get_def sentiment_map_def
  spec_chain_wrong_def spec_sentiment_sign_def spec_price_change_pct_def
  validation_defined_def

text \<open>
  The amended claim C9 on the example of the specification: bullish, recorded price 100,
  current price 95 gives a change of \<open>-5\<close> percent and the outcome \<open>wrong\<close>; a current
  price of 99 gives the outcome \<open>right\<close>.
\<close>

theorem validate_past_prediction_wrong_iff_witness:
  "validation_defined
     (example_prediction [(''SOL'', 100)] [(''SOL'', ''bullish'')]) [(''SOL'', 95)] \<and>
   spec_chain_wrong
     (example_prediction [(''SOL'', 100)] [(''SOL'', ''bullish'')]) [(''SOL'', 95)]
     (''SOL'', 100) \<and>
   validate_past_prediction
     (example_prediction [(''SOL'', 100)] [(''SOL'', ''bullish'')]) [(''SOL'', 95)]
     = Inr ''wrong'' \<and>
   validate_past_prediction
     (example_prediction [(''SOL'', 100)] [(''SOL'', ''bullish'')]) [(''SOL'', 99)]
     = Inr ''right''"
  using
    validate_past_prediction_wrong_iff [of
      "example_prediction [(''SOL'', 100)] [(''SOL'', ''bullish'')]" "[(''SOL'', 95)]"]
    validate_past_prediction_wrong_iff [of
      "example_prediction [(''SOL'', 100)] [(''SOL'', ''bullish'')]" "[(''SOL'', 99)]"]
  by (simp add: validate_defs example_defs str_defs)

text \<open>
  Claim C9 as stated makes the validation return \<open>wrong\<close> whenever some chain counts as
  wrong. Here SOL counts as wrong (bullish, 100 to 95), and the validation raises
  \<open>ZeroDivisionError\<close> on the recorded price 0 of DOT instead of returning.
\<close>

theorem zero_recorded_price_counterexample:
  "spec_chain_wrong
     (example_prediction [(''SOL'', 100), (''DOT'', 0)]
        [(''SOL'', ''bullish''), (''DOT'', ''bullish'')])
     [(''SOL'', 95), (''DOT'', 1)] (''SOL'', 100) \<and>
   validate_past_prediction
     (example_prediction [(''SOL'', 100), (''DOT'', 0)]
        [(''SOL'', ''bullish''), (''DOT'', ''bullish'')])
     [(''SOL'', 95), (''DOT'', 1)]
     = Inl ZeroDivisionError"
  by (simp add: validate_defs example_defs str_defs)

text \<open>
  The amended claim C10 on two predictions. In the first SOL is recorded as volatile and
  DOT as bullish; SOL falls by 50 percent and DOT by 20 percent: the list of wrong chains
  holds DOT and not SOL. In the second SOL is volatile and DOT recovering; the prices
  move by \<open>-50\<close> and \<open>+100\<close> percent and the outcome is \<open>right\<close>.
\<close>

theorem unlisted_sentiment_never_wrong_witness:
  "validate_chains [(''SOL'', ''volatile''), (''DOT'', ''bullish'')]
     [(''SOL'', 50), (''DOT'', 4)] [(''SOL'', 100), (''DOT'', 5)] [] = Inr [''DOT''] \<and>
   ''SOL'' \<notin> set [''DOT''] \<and>
   validate_past_prediction
     (example_prediction [(''SOL'', 100), (''DOT'', 5)]
        [(''SOL'', ''volatile''), (''DOT'', ''bullish'')])
     [(''SOL'', 50), (''DOT'', 4)]
     = Inr ''wrong'' \<and>
   validate_past_prediction
     (example_prediction [(''SOL'', 100), (''DOT'', 5)]
        [(''SOL'', ''volatile''), (''DOT'', ''recovering'')])
     [(''SOL'', 50), (''DOT'', 10)]
     = Inr ''right'' \<and>
   sentiment_map_get ''volatile'' = 0 \<and> sentiment_map_get ''recovering'' = 0"
  using
    unlisted_sentiment_never_wrong [of
     "example_prediction [(''SOL'', 100), (''DOT'', 5)]
        [(''SOL'', ''volatile''), (''DOT'', ''bullish'')]"
     "[(''SOL'', 50), (''DOT'', 4)]"]
    unlisted_sentiment_never_wrong [of
     "example_prediction [(''SOL'', 100), (''DOT'', 5)]
        [(''SOL'', ''volatile''), (''DOT'', ''recovering'')]"
     "[(''SOL'', 50), (''DOT'', 10)]"]
  by (simp add: validate_defs example_defs str_defs)

text \<open>
  Claim C10 as stated makes every prediction whose sentiments are all volatile or
  recovering validate as \<open>right\<close>. With a recorded price 0 the validation raises
  \<open>ZeroDivisionError\<close> and returns nothing.
\<close>

theorem volatile_zero_price_counterexample:
  "map snd (sentiment (example_prediction [(''SOL'', 0)] [(''SOL'', ''volatile'')]))
     = [''volatile''] \<and>
   validate_past_prediction
     (example_prediction [(''SOL'', 0)] [(''SOL'', ''volatile'')]) [(''SOL'', 1)]
     = Inl ZeroDivisionError \<and>
   validate_past_prediction
     (example_prediction [(''SOL'', 0)] [(''SOL'', ''volatile'')]) [(''SOL'', 1)]
     \<noteq> Inr ''right''"
  by (simp add: validate_defs example_defs str_defs)

end
